theory Spec2Isabelle
  imports Complex_Main "HOL-Library.Multiset" "HOL-Library.Sublist"
    "HOL-Library.Char_ord" "HOL-Library.List_Lexorder"
begin

section \<open>Portfolio tracker client: holdings table, dashboard summary, session, cache\<close>

text \<open>
  Numbers are modelled at two levels. In the first part they are exact reals, the
  decimals of the data model; the properties proved there concern the structure of the
  computation. The part on double precision models the same functions on IEEE 754
  doubles, with rounding, overflow and NaN; the properties that depend on those are
  proved there. \<open>undefined\<close>/\<open>null\<close> is \<open>None\<close>.
\<close>

subsection \<open>Entities\<close>

text \<open>
  Modelled from the spec: the declarations of \<open>Holding\<close> and \<open>Security\<close>
  (\<open>entities.types\<close>) are not available; the fields are those of the data model.
  The identifier field \<open>id\<close> is written \<open>id_holding\<close>.
\<close>

record Security =
  symbol :: string
  name :: string
  currentPrice :: "real option"

record Holding =
  id_holding :: string
  portfolioId :: string
  securityId :: string
  totalShares :: real
  averageCost :: "real option"
  security :: Security

text \<open>
  The object literal \<open>{...holding, currentPrice, marketValue, bookValue, unrealizedGain,
  unrealizedGainPercent}\<close> of \<open>HoldingsTable\<close>: a holding extended by five numbers.
\<close>

record EnrichedHolding = Holding +
  currentPrice :: real
  marketValue :: real
  bookValue :: real
  unrealizedGain :: real
  unrealizedGainPercent :: real

datatype SortField = Symbol | Shares | Price | Cost | Value | Gain | GainPercent

datatype SortDirection = Asc | Desc

record PortfolioSummary =
  totalValue :: real
  totalCost :: real
  totalGain :: real
  totalGainPercent :: real

subsection \<open>JavaScript runtime\<close>

text \<open>
  \<open>x || 0\<close> on an optional number: every falsy value (absent, or the number 0) gives 0.
\<close>

fun or_zero :: "real option \<Rightarrow> real" where
  "or_zero None = 0"
| "or_zero (Some x) = (if x = 0 then 0 else x)"

text \<open>The values a variable declared \<open>any\<close> holds in the comparator.\<close>

datatype js_value = Str string | Num real

text \<open>
  \<open>String.prototype.localeCompare\<close> belongs to the runtime. A collation orders strings
  by their collation keys; the key function \<open>col\<close> is a parameter, and the result is
  negative, zero or positive as the receiver sorts before, with or after the argument.
\<close>

definition localeCompare :: "(string \<Rightarrow> 'k::linorder) \<Rightarrow> string \<Rightarrow> string \<Rightarrow> real" where
  "localeCompare col s t = (if col s < col t then - 1 else if col s = col t then 0 else 1)"

text \<open>The collation that compares code units, used where a concrete collation is needed.\<close>

definition codeUnitOrder :: "string \<Rightarrow> string" where
  "codeUnitOrder s = s"

text \<open>
  \<open>Array.prototype.sort\<close> with a comparator is a stable sort: \<open>a\<close> is placed before
  \<open>b\<close> when the comparator is negative, after it when positive, and elements that
  compare 0 keep their order. Insertion from the right realises exactly that.
\<close>

fun insert_by :: "('a \<Rightarrow> 'a \<Rightarrow> real) \<Rightarrow> 'a \<Rightarrow> 'a list \<Rightarrow> 'a list" where
  "insert_by c x [] = [x]"
| "insert_by c x (y # ys) = (if c x y \<le> 0 then x # y # ys else y # insert_by c x ys)"

fun sort_by :: "('a \<Rightarrow> 'a \<Rightarrow> real) \<Rightarrow> 'a list \<Rightarrow> 'a list" where
  "sort_by c [] = []"
| "sort_by c (x # xs) = insert_by c x (sort_by c xs)"

subsection \<open>HoldingsTable: enrichment\<close>

definition enrich :: "Holding \<Rightarrow> EnrichedHolding" where
  "enrich holding =
    (let currentPrice = or_zero (Security.currentPrice (security holding));
         marketValue = totalShares holding * currentPrice;
         bookValue = totalShares holding * or_zero (averageCost holding);
         unrealizedGain = marketValue - bookValue;
         unrealizedGainPercent = (if bookValue > 0 then unrealizedGain / bookValue else 0)
     in Holding.extend holding
          (EnrichedHolding.fields currentPrice marketValue bookValue
             unrealizedGain unrealizedGainPercent))"

definition enrichedHoldings :: "Holding list \<Rightarrow> EnrichedHolding list" where
  "enrichedHoldings holdings = map enrich holdings"

subsection \<open>HoldingsTable: sorting\<close>

text \<open>The \<open>switch\<close> on the sort field: the value taken from one row.\<close>

fun fieldValue :: "SortField \<Rightarrow> EnrichedHolding \<Rightarrow> js_value" where
  "fieldValue Symbol a = Str (symbol (security a))"
| "fieldValue Shares a = Num (totalShares a)"
| "fieldValue Price a = Num (EnrichedHolding.currentPrice a)"
| "fieldValue Cost a = Num (or_zero (averageCost a))"
| "fieldValue Value a = Num (marketValue a)"
| "fieldValue Gain a = Num (unrealizedGain a)"
| "fieldValue GainPercent a = Num (unrealizedGainPercent a)"

text \<open>
  Steps 3 and 4 of the comparator. Both values come from the same field, so the mixed
  cases are never reached; there the source computes with a coerced operand, here 0.
\<close>

fun compareValues ::
  "(string \<Rightarrow> 'k::linorder) \<Rightarrow> SortDirection \<Rightarrow> js_value \<Rightarrow> js_value \<Rightarrow> real" where
  "compareValues col d (Str aValue) (Str bValue) =
     (if d = Asc then localeCompare col aValue bValue else localeCompare col bValue aValue)"
| "compareValues col d (Num aValue) (Num bValue) =
     (if d = Asc then aValue - bValue else bValue - aValue)"
| "compareValues col d (Str aValue) (Num bValue) = 0"
| "compareValues col d (Num aValue) (Str bValue) = 0"

definition comparator ::
  "(string \<Rightarrow> 'k::linorder) \<Rightarrow> SortField \<Rightarrow> SortDirection \<Rightarrow>
     EnrichedHolding \<Rightarrow> EnrichedHolding \<Rightarrow> real" where
  "comparator col sortField sortDirection a b =
     compareValues col sortDirection (fieldValue sortField a) (fieldValue sortField b)"

definition sortedHoldings ::
  "(string \<Rightarrow> 'k::linorder) \<Rightarrow> EnrichedHolding list \<Rightarrow> SortField \<Rightarrow> SortDirection \<Rightarrow>
     EnrichedHolding list" where
  "sortedHoldings col enriched sortField sortDirection =
     sort_by (comparator col sortField sortDirection) enriched"

text \<open>The pipeline the table renders: enrichment, then sorting.\<close>

definition deriveAndSort ::
  "(string \<Rightarrow> 'k::linorder) \<Rightarrow> Holding list \<Rightarrow> SortField \<Rightarrow> SortDirection \<Rightarrow>
     EnrichedHolding list" where
  "deriveAndSort col holdings sortField sortDirection =
     sortedHoldings col (enrichedHoldings holdings) sortField sortDirection"

subsection \<open>DashboardPage: summary\<close>

text \<open>
  The dashboard reduces the raw holdings; every record that has the fields of a holding
  is accepted, as the structural typing of the source allows.
\<close>

definition summary :: "'a Holding_scheme list \<Rightarrow> PortfolioSummary" where
  "summary holdings =
    (if length holdings = 0
     then \<lparr>totalValue = 0, totalCost = 0, totalGain = 0, totalGainPercent = 0\<rparr>
     else
       let totalValue = foldl (\<lambda>sum h.
               let currentPrice = or_zero (Security.currentPrice (security h))
               in sum + totalShares h * currentPrice) 0 holdings;
           totalCost = foldl (\<lambda>sum h.
               let avgCost = or_zero (averageCost h)
               in sum + totalShares h * avgCost) 0 holdings;
           totalGain = totalValue - totalCost;
           totalGainPercent = (if totalCost > 0 then totalGain / totalCost else 0)
       in \<lparr>totalValue = totalValue, totalCost = totalCost, totalGain = totalGain,
            totalGainPercent = totalGainPercent\<rparr>)"

text \<open>
  The summary aggregator as the specification words it: sums of \<open>marketValue\<close> and
  \<open>bookValue\<close> over the enriched holdings, and the two derived totals.
\<close>

definition summarize :: "EnrichedHolding list \<Rightarrow> PortfolioSummary" where
  "summarize enriched =
    (let tv = sum_list (map marketValue enriched);
         tc = sum_list (map bookValue enriched)
     in \<lparr>totalValue = tv, totalCost = tc, totalGain = tv - tc,
          totalGainPercent = (if tc > 0 then (tv - tc) / tc else 0)\<rparr>)"

text \<open>The two holdings of the concrete scenario, and a third without a price.\<close>

definition aapl :: Holding where
  "aapl = \<lparr>id_holding = ''h1'', portfolioId = ''p1'', securityId = ''s1'', totalShares = 10,
            averageCost = Some 100,
            security = \<lparr>symbol = ''AAPL'', name = ''Apple'', currentPrice = Some 150\<rparr>\<rparr>"

definition tsla :: Holding where
  "tsla = \<lparr>id_holding = ''h2'', portfolioId = ''p1'', securityId = ''s2'', totalShares = 5,
            averageCost = Some 200,
            security = \<lparr>symbol = ''TSLA'', name = ''Tesla'', currentPrice = Some 180\<rparr>\<rparr>"

definition msft :: Holding where
  "msft = \<lparr>id_holding = ''h3'', portfolioId = ''p1'', securityId = ''s3'', totalShares = 10,
            averageCost = Some 300,
            security = \<lparr>symbol = ''MSFT'', name = ''Microsoft'', currentPrice = None\<rparr>\<rparr>"

subsection \<open>Session: types and browser state\<close>

record JsError =
  message :: "string option"
  response_data_message :: "string option"

record LoginRequest =
  email :: string
  password :: string

record AuthUser =
  id_user :: string
  email :: string
  fullName :: "string option"

record AuthResponse =
  token :: string
  user :: AuthUser

text \<open>
  Modelled from the spec: \<open>STORAGE_KEYS\<close> and \<open>ROUTES\<close> (\<open>utils/constants\<close>) are not
  available; durable storage has two keys, one for the credential and one for
  the serialized identity, and the routes used are the login and the dashboard view.
\<close>

datatype StorageKey = AUTH_TOKEN | USER

datatype Route = LOGIN | DASHBOARD

type_synonym Storage = "StorageKey \<rightharpoonup> string"

definition getItem :: "StorageKey \<Rightarrow> Storage \<Rightarrow> string option" where
  "getItem k st = st k"

definition setItem :: "StorageKey \<Rightarrow> string \<Rightarrow> Storage \<Rightarrow> Storage" where
  "setItem k v st = st(k \<mapsto> v)"

definition removeItem :: "StorageKey \<Rightarrow> Storage \<Rightarrow> Storage" where
  "removeItem k st = st(k := None)"

datatype ToastVariant = DefaultVariant | Destructive

record Toast =
  variant :: ToastVariant
  title :: string
  description :: string

text \<open>What every component can do to the page: show a toast.\<close>

record UiState =
  toasts :: "Toast list"

definition toast :: "Toast \<Rightarrow> 'a UiState_scheme \<Rightarrow> 'a UiState_scheme" where
  "toast t s = s\<lparr>toasts := toasts s @ [t]\<rparr>"

text \<open>
  The state of \<open>AuthProvider\<close>: its two \<open>useState\<close> cells, and the browser state its
  functions act on (local storage, router history, console).
\<close>

record AuthState = UiState +
  user :: "AuthUser option"
  isLoading :: bool
  localStorage :: Storage
  navigations :: "Route list"
  console :: "JsError list"

text \<open>Truthiness of an optional string: absent and empty are falsy.\<close>

fun truthy :: "string option \<Rightarrow> bool" where
  "truthy None = False"
| "truthy (Some s) = (s \<noteq> [])"

text \<open>\<open>x || d\<close> on an optional string.\<close>

fun or_string :: "string option \<Rightarrow> string \<Rightarrow> string" where
  "or_string None d = d"
| "or_string (Some s) d = (if s = [] then d else s)"

text \<open>
  Modelled from the spec: the bodies of \<open>getAuthToken\<close>, \<open>setAuthToken\<close> and
  \<open>clearAuthToken\<close> (\<open>api/client\<close>) are not available; they read, write and
  remove the credential under its storage key.
\<close>

definition getAuthToken :: "AuthState \<Rightarrow> string option" where
  "getAuthToken s = getItem AUTH_TOKEN (localStorage s)"

definition setAuthToken :: "string \<Rightarrow> AuthState \<Rightarrow> AuthState" where
  "setAuthToken t s = s\<lparr>localStorage := setItem AUTH_TOKEN t (localStorage s)\<rparr>"

definition clearAuthToken :: "AuthState \<Rightarrow> AuthState" where
  "clearAuthToken s = s\<lparr>localStorage := removeItem AUTH_TOKEN (localStorage s)\<rparr>"

subsection \<open>AuthProvider\<close>

text \<open>
  The provider as first rendered: \<open>useState(null)\<close> for the user and
  \<open>useState(false)\<close> for the loading flag, over whatever the storage holds.
\<close>

definition initialState :: "Storage \<Rightarrow> AuthState" where
  "initialState st =
     \<lparr>toasts = [], user = None, isLoading = False, localStorage = st,
      navigations = [], console = []\<rparr>"

definition isAuthenticated :: "AuthState \<Rightarrow> bool" where
  "isAuthenticated s = (user s \<noteq> None)"

text \<open>
  The \<open>try\<close> block of \<open>initializeAuth\<close>. \<open>JSON.parse\<close> belongs to the runtime and is
  the parameter \<open>parse\<close>: it throws (\<open>Inl\<close>) or returns the value, which the source
  takes at its declared type \<open>AuthUser\<close>.
\<close>

definition initializeAuth_try ::
  "(string \<Rightarrow> JsError + AuthUser) \<Rightarrow> AuthState \<Rightarrow> JsError + AuthState" where
  "initializeAuth_try parse s =
    (let token = getAuthToken s;
         savedUser = getItem USER (localStorage s)
     in case savedUser of
          None \<Rightarrow> Inr s
        | Some text \<Rightarrow>
            if truthy token \<and> truthy savedUser
            then (case parse text of
                    Inl error \<Rightarrow> Inl error
                  | Inr parsedUser \<Rightarrow> Inr (s\<lparr>user := Some parsedUser\<rparr>))
            else Inr s)"

text \<open>
  \<open>initializeAuth\<close> with its \<open>catch\<close> and \<open>finally\<close>. The first component is the error
  that leaves the function, if any; the \<open>catch\<close> block does not rethrow.
\<close>

definition initializeAuth ::
  "(string \<Rightarrow> JsError + AuthUser) \<Rightarrow> AuthState \<Rightarrow> JsError option \<times> AuthState" where
  "initializeAuth parse s =
    (let (thrown, s1) =
           (case initializeAuth_try parse s of
              Inr s' \<Rightarrow> (None, s')
            | Inl error \<Rightarrow>
                let s2 = s\<lparr>console := console s @ [error]\<rparr>;
                    s3 = clearAuthToken s2;
                    s4 = s3\<lparr>localStorage := removeItem USER (localStorage s3)\<rparr>
                in (None, s4))
     in (thrown, s1\<lparr>isLoading := False\<rparr>))"

text \<open>
  \<open>login\<close>. The gateway call \<open>apiLogin\<close> resolves (\<open>Inr\<close>) or rejects (\<open>Inl\<close>);
  \<open>JSON.stringify\<close> is the parameter \<open>stringify\<close>. The \<open>catch\<close> block rethrows.
\<close>

definition login ::
  "(AuthUser \<Rightarrow> string) \<Rightarrow> (LoginRequest \<Rightarrow> JsError + AuthResponse) \<Rightarrow>
     LoginRequest \<Rightarrow> AuthState \<Rightarrow> JsError option \<times> AuthState" where
  "login stringify apiLogin credentials s =
    (let s0 = s\<lparr>isLoading := True\<rparr>;
         (thrown, s1) =
           (case apiLogin credentials of
              Inr response \<Rightarrow>
                let s2 = setAuthToken (token response) s0;
                    s3 = s2\<lparr>localStorage :=
                            setItem USER (stringify (AuthResponse.user response)) (localStorage s2)\<rparr>;
                    s4 = s3\<lparr>user := Some (AuthResponse.user response)\<rparr>;
                    s5 = toast \<lparr>variant = DefaultVariant, title = ''Welcome back!'',
                                description = ''Logged in as , ''
                                  @ AuthUser.email (AuthResponse.user response) @ ''!''\<rparr> s4;
                    s6 = s5\<lparr>navigations := navigations s5 @ [DASHBOARD]\<rparr>
                in (None, s6)
            | Inl error \<Rightarrow>
                let s2 = toast \<lparr>variant = Destructive, title = ''Login Failed'',
                                description =
                                  or_string (message error) ''Invalid email or password''\<rparr> s0
                in (Some error, s2))
     in (thrown, s1\<lparr>isLoading := False\<rparr>))"

subsection \<open>ProtectedRoute\<close>

datatype Rendered = LoadingPage string | Navigate Route | Children

definition ProtectedRoute :: "AuthState \<Rightarrow> Rendered" where
  "ProtectedRoute s =
    (if isLoading s then LoadingPage ''Checking authentication...''
     else if \<not> isAuthenticated s then Navigate LOGIN
     else Children)"

text \<open>
  A parser that accepts one stored identity and rejects every other text, and the
  serializer that writes it, for the concrete cases.
\<close>

definition sampleUser :: AuthUser where
  "sampleUser = \<lparr>id_user = ''u1'', email = ''a@b.c'', fullName = None\<rparr>"

definition sampleParse :: "string \<Rightarrow> JsError + AuthUser" where
  \<open>sampleParse text =
    (if text = ''{"id":"u1","email":"a@b.c"}'' then Inr sampleUser
     else Inl \<lparr>message = Some ''Unexpected token'', response_data_message = None\<rparr>)\<close>

definition sampleStringify :: "AuthUser \<Rightarrow> string" where
  \<open>sampleStringify u = ''{"id":"'' @ id_user u @ ''","email":"'' @ AuthUser.email u @ ''"}''\<close>

subsection \<open>Query cache\<close>

text \<open>
  The query client of the data-fetching library, as far as the hooks use it: cached
  queries under list-shaped keys, and \<open>invalidateQueries\<close>, which marks every query
  whose key starts with the given key.
\<close>

type_synonym QueryKey = "string list"

record 'd Query =
  data :: 'd
  isInvalidated :: bool

record 'd QueryState = UiState +
  queryCache :: "QueryKey \<rightharpoonup> 'd Query"

definition invalidateQueries :: "QueryKey \<Rightarrow> 'd QueryState \<Rightarrow> 'd QueryState" where
  "invalidateQueries queryKey s =
     s\<lparr>queryCache := (\<lambda>k. case queryCache s k of
                              None \<Rightarrow> None
                            | Some q \<Rightarrow> Some (if prefix queryKey k
                                              then q\<lparr>isInvalidated := True\<rparr> else q))\<rparr>"

text \<open>
  \<open>useMutation\<close>: the mutation function settles; \<open>onSuccess\<close> runs when it resolves,
  \<open>onError\<close> when it rejects. A hook that registers no \<open>onError\<close> passes \<open>no_handler\<close>.
\<close>

definition useMutation ::
  "('v \<Rightarrow> JsError + 'r) \<Rightarrow> ('r \<Rightarrow> 'v \<Rightarrow> 's \<Rightarrow> 's) \<Rightarrow> (JsError \<Rightarrow> 'v \<Rightarrow> 's \<Rightarrow> 's) \<Rightarrow>
     'v \<Rightarrow> 's \<Rightarrow> 's" where
  "useMutation mutationFn onSuccess onError variables s =
    (case mutationFn variables of
       Inr result \<Rightarrow> onSuccess result variables s
     | Inl error \<Rightarrow> onError error variables s)"

definition no_handler :: "JsError \<Rightarrow> 'v \<Rightarrow> 's \<Rightarrow> 's" where
  "no_handler error variables s = s"

subsection \<open>Query keys\<close>

definition holdingKeys_all :: QueryKey where
  "holdingKeys_all = [''holdings'']"

definition holdingKeys_lists :: QueryKey where
  "holdingKeys_lists = holdingKeys_all @ [''list'']"

definition holdingKeys_list :: "string \<Rightarrow> string \<Rightarrow> QueryKey" where
  "holdingKeys_list = (\<lambda>portfolioId userId. holdingKeys_lists @ [portfolioId, userId])"

definition holdingKeys_details :: QueryKey where
  "holdingKeys_details = holdingKeys_all @ [''detail'']"

definition holdingKeys_detail :: "string \<Rightarrow> string \<Rightarrow> string \<Rightarrow> QueryKey" where
  "holdingKeys_detail =
     (\<lambda>portfolioId holdingId userId. holdingKeys_details @ [portfolioId, holdingId, userId])"

definition portfolioKeys_all :: QueryKey where
  "portfolioKeys_all = [''portfolios'']"

subsection \<open>Transaction mutation hooks\<close>

text \<open>
  The endpoint functions (\<open>createTransaction\<close>, ...) are the remote gateway: parameters
  that resolve or reject. Variables are the tuple of the fields the hook destructures.
\<close>

definition useCreateTransaction ::
  "(string \<Rightarrow> string \<Rightarrow> 'dto \<Rightarrow> JsError + 'r) \<Rightarrow> string \<times> string \<times> 'dto \<Rightarrow>
     'd QueryState \<Rightarrow> 'd QueryState" where
  "useCreateTransaction createTransaction =
     useMutation
       (\<lambda>(userId, portfolioId, data). createTransaction userId portfolioId data)
       (\<lambda>result variables s.
          toast \<lparr>variant = DefaultVariant, title = ''Transaction added'',
                 description = ''Your transaction has been recorded successfully.''\<rparr>
            (invalidateQueries portfolioKeys_all (invalidateQueries holdingKeys_all s)))
       (\<lambda>error variables s.
          toast \<lparr>variant = Destructive, title = ''Failed to add transaction'',
                 description =
                   or_string (response_data_message error) ''Something went wrong''\<rparr> s)"

definition useUpdateTransaction ::
  "(string \<Rightarrow> string \<Rightarrow> 'dto \<Rightarrow> JsError + 'r) \<Rightarrow> string \<times> string \<times> 'dto \<Rightarrow>
     'd QueryState \<Rightarrow> 'd QueryState" where
  "useUpdateTransaction updateTransaction =
     useMutation
       (\<lambda>(userId, transactionId, data). updateTransaction userId transactionId data)
       (\<lambda>result variables s.
          toast \<lparr>variant = DefaultVariant, title = ''Transaction updated'',
                 description = ''Changes saved successfully.''\<rparr>
            (invalidateQueries portfolioKeys_all (invalidateQueries holdingKeys_all s)))
       (\<lambda>error variables s.
          toast \<lparr>variant = Destructive, title = ''Failed to update transaction'',
                 description =
                   or_string (response_data_message error) ''Something went wrong''\<rparr> s)"

definition useDeleteTransaction ::
  "(string \<Rightarrow> string \<Rightarrow> JsError + 'r) \<Rightarrow> string \<times> string \<Rightarrow>
     'd QueryState \<Rightarrow> 'd QueryState" where
  "useDeleteTransaction deleteTransaction =
     useMutation
       (\<lambda>(userId, transactionId). deleteTransaction userId transactionId)
       (\<lambda>result variables s.
          toast \<lparr>variant = DefaultVariant, title = ''Transaction deleted'',
                 description = ''The transaction has been removed successfully.''\<rparr>
            (invalidateQueries portfolioKeys_all (invalidateQueries holdingKeys_all s)))
       (\<lambda>error variables s.
          toast \<lparr>variant = Destructive, title = ''Failed to delete transaction'',
                 description =
                   or_string (response_data_message error) ''Something went wrong''\<rparr> s)"

subsection \<open>Holding mutation hooks\<close>

definition useCreateHolding ::
  "(string \<Rightarrow> string \<Rightarrow> 'dto \<Rightarrow> JsError + 'r) \<Rightarrow> string \<times> string \<times> 'dto \<Rightarrow>
     'd QueryState \<Rightarrow> 'd QueryState" where
  "useCreateHolding createHolding =
     useMutation
       (\<lambda>(portfolioId, userId, data). createHolding portfolioId userId data)
       (\<lambda>result (portfolioId, userId, data) s.
          toast \<lparr>variant = DefaultVariant, title = ''Holding Created'',
                 description = ''The new holding has been created successfully.''\<rparr>
            (invalidateQueries (holdingKeys_list portfolioId userId) s))
       no_handler"

definition useUpdateHolding ::
  "(string \<Rightarrow> string \<Rightarrow> string \<Rightarrow> 'dto \<Rightarrow> JsError + 'r) \<Rightarrow>
     string \<times> string \<times> string \<times> 'dto \<Rightarrow> 'd QueryState \<Rightarrow> 'd QueryState" where
  "useUpdateHolding updateHolding =
     useMutation
       (\<lambda>(userId, portfolioId, holdingId, data). updateHolding userId portfolioId holdingId data)
       (\<lambda>result (userId, portfolioId, holdingId, data) s.
          toast \<lparr>variant = DefaultVariant, title = ''Portfolio Updated'',
                 description = ''The portfolio has been updated successfully.''\<rparr>
            (invalidateQueries (holdingKeys_detail portfolioId userId holdingId) s))
       no_handler"

definition useDeleteHolding ::
  "(string \<Rightarrow> string \<Rightarrow> string \<Rightarrow> JsError + 'r) \<Rightarrow> string \<times> string \<times> string \<Rightarrow>
     'd QueryState \<Rightarrow> 'd QueryState" where
  "useDeleteHolding deleteHolding =
     useMutation
       (\<lambda>(holdingId, portfolioId, userId). deleteHolding holdingId portfolioId userId)
       (\<lambda>result (holdingId, portfolioId, userId) s.
          toast \<lparr>variant = DefaultVariant, title = ''Holding Deleted'',
                 description = ''The holding has been deleted successfully.''\<rparr>
            (invalidateQueries (holdingKeys_list portfolioId userId) s))
       no_handler"

text \<open>A cache that holds the holdings list of portfolio \<open>p1\<close> for user \<open>u1\<close>, fresh.\<close>

definition sampleCache :: "Holding list QueryState" where
  "sampleCache =
     \<lparr>toasts = [],
      queryCache = [holdingKeys_list ''p1'' ''u1'' \<mapsto> \<lparr>data = [aapl, tsla], isInvalidated = False\<rparr>]\<rparr>"

definition rejected :: JsError where
  "rejected = \<lparr>message = Some ''Request failed with status code 400'',
               response_data_message = Some ''Insufficient shares''\<rparr>"

text \<open>Storage contents and gateway values for the concrete cases.\<close>

definition validStorage :: Storage where
  \<open>validStorage = [AUTH_TOKEN \<mapsto> ''tok123'', USER \<mapsto> ''{"id":"u1","email":"a@b.c"}'']\<close>

definition corruptedStorage :: Storage where
  "corruptedStorage = [AUTH_TOKEN \<mapsto> ''tok123'', USER \<mapsto> ''{not json'']"

definition emptyIdentityStorage :: Storage where
  "emptyIdentityStorage = [AUTH_TOKEN \<mapsto> ''tok123'', USER \<mapsto> []]"

definition sampleCredentials :: LoginRequest where
  "sampleCredentials = \<lparr>LoginRequest.email = ''a@b.c'', password = ''hunter22''\<rparr>"

definition sampleResponse :: AuthResponse where
  "sampleResponse = \<lparr>token = ''tok123'', user = sampleUser\<rparr>"

section \<open>Double precision\<close>

text \<open>
  The source computes with JavaScript numbers, IEEE 754 binary64. This part models them:
  a number is a finite real, an infinity or NaN, and every arithmetic operation rounds
  its exact result to the nearest representable value, ties to even, with gradual
  underflow below \<open>2 ^ - 1022\<close> and overflow to an infinity from \<open>2 ^ 1024\<close> on. The sign
  of zero is not modelled: no function below divides by zero or prints a zero.
\<close>

datatype double = Finite real | PosInf | NegInf | NaN

text \<open>The number of binary digits of a positive integer.\<close>

function bit_length :: "int \<Rightarrow> int" where
  "bit_length n = (if n \<le> 0 then 0 else 1 + bit_length (n div 2))"
  by pat_completeness auto
termination
  by (relation "measure nat") auto

declare bit_length.simps [simp del]

text \<open>\<open>2\<close> to an integer power.\<close>

definition pow2 :: "int \<Rightarrow> real" where
  "pow2 e = (if 0 \<le> e then 2 ^ nat e else 1 / 2 ^ nat (- e))"

text \<open>The binary exponent of a non-zero real: \<open>2 ^ e \<le> |x| < 2 ^ (e + 1)\<close>.\<close>

definition exponent :: "real \<Rightarrow> int" where
  "exponent x =
    (if 1 \<le> \<bar>x\<bar> then bit_length \<lfloor>\<bar>x\<bar>\<rfloor> - 1
     else - bit_length (\<lceil>1 / \<bar>x\<bar>\<rceil> - 1))"

text \<open>Rounding a real to the nearest integer, ties to the even one.\<close>

definition round_even :: "real \<Rightarrow> int" where
  "round_even x =
    (let f = \<lfloor>x\<rfloor>; r = x - of_int f
     in if r < 1 / 2 then f else if 1 / 2 < r then f + 1 else if even f then f else f + 1)"

text \<open>
  Rounding a real to binary64: 53 significant bits at the exponent of \<open>x\<close>, the
  subnormal spacing \<open>2 ^ - 1074\<close> below the normal range, an infinity on overflow.
\<close>

definition round64 :: "real \<Rightarrow> double" where
  "round64 x =
    (if x = 0 then Finite 0
     else let q = pow2 (max (exponent x) (- 1022) - 52);
              r = of_int (round_even (x / q)) * q
          in if pow2 1024 \<le> r then PosInf
             else if r \<le> - pow2 1024 then NegInf
             else Finite r)"

text \<open>Addition, as \<open>+\<close> on numbers.\<close>

fun dadd :: "double \<Rightarrow> double \<Rightarrow> double" where
  "dadd (Finite a) (Finite b) = round64 (a + b)"
| "dadd NaN y = NaN"
| "dadd x NaN = NaN"
| "dadd PosInf NegInf = NaN"
| "dadd NegInf PosInf = NaN"
| "dadd PosInf y = PosInf"
| "dadd NegInf y = NegInf"
| "dadd x PosInf = PosInf"
| "dadd x NegInf = NegInf"

text \<open>Finiteness, the sign a sort reads from a comparator result (NaN counts as 0), negation.\<close>

fun is_finite :: "double \<Rightarrow> bool" where
  "is_finite (Finite a) = True"
| "is_finite x = False"

fun dsign :: "double \<Rightarrow> real" where
  "dsign (Finite a) = a"
| "dsign PosInf = 1"
| "dsign NegInf = - 1"
| "dsign NaN = 0"

fun dneg :: "double \<Rightarrow> double" where
  "dneg (Finite a) = Finite (- a)"
| "dneg PosInf = NegInf"
| "dneg NegInf = PosInf"
| "dneg NaN = NaN"

text \<open>Subtraction, multiplication and division, as \<open>-\<close>, \<open>*\<close> and \<open>/\<close> on numbers.\<close>

definition dsub :: "double \<Rightarrow> double \<Rightarrow> double" where
  "dsub x y = dadd x (dneg y)"

fun dmul :: "double \<Rightarrow> double \<Rightarrow> double" where
  "dmul (Finite a) (Finite b) = round64 (a * b)"
| "dmul NaN y = NaN"
| "dmul x NaN = NaN"
| "dmul x y =
     (if dsign x * dsign y = 0 then NaN
      else if 0 < dsign x * dsign y then PosInf else NegInf)"

fun ddiv :: "double \<Rightarrow> double \<Rightarrow> double" where
  "ddiv (Finite a) (Finite b) =
     (if b = 0 then (if a = 0 then NaN else if 0 < a then PosInf else NegInf)
      else round64 (a / b))"
| "ddiv NaN y = NaN"
| "ddiv x NaN = NaN"
| "ddiv (Finite a) y = Finite 0"
| "ddiv x (Finite b) = (if 0 < dsign x * (if b < 0 then - 1 else 1) then PosInf else NegInf)"
| "ddiv x y = NaN"

text \<open>The test \<open>x > 0\<close>; it is false for NaN.\<close>

fun dgt0 :: "double \<Rightarrow> bool" where
  "dgt0 (Finite a) = (0 < a)"
| "dgt0 PosInf = True"
| "dgt0 x = False"

text \<open>\<open>x || 0\<close> on an optional number: absent, 0 and NaN are falsy.\<close>

fun or_zero_d :: "double option \<Rightarrow> double" where
  "or_zero_d None = Finite 0"
| "or_zero_d (Some NaN) = Finite 0"
| "or_zero_d (Some x) = x"

subsection \<open>The holdings pipeline on doubles\<close>

text \<open>
  The same source functions as above, \<open>enrichedHoldings\<close> and \<open>sortedHoldings\<close> of
  \<open>HoldingsTable\<close> and \<open>summary\<close> of \<open>DashboardPage\<close>, with every number a double and
  every operation rounded. Names carry the suffix \<open>_d\<close>.
\<close>

record Security_d =
  symbol_d :: string
  name_d :: string
  currentPrice_d :: "double option"

record Holding_d =
  id_holding_d :: string
  portfolioId_d :: string
  securityId_d :: string
  totalShares_d :: double
  averageCost_d :: "double option"
  security_d :: Security_d

record EnrichedHolding_d = Holding_d +
  currentPrice_d :: double
  marketValue_d :: double
  bookValue_d :: double
  unrealizedGain_d :: double
  unrealizedGainPercent_d :: double


definition enrich_d :: "Holding_d \<Rightarrow> EnrichedHolding_d" where
  "enrich_d holding =
    (let currentPrice = or_zero_d (Security_d.currentPrice_d (security_d holding));
         marketValue = dmul (totalShares_d holding) currentPrice;
         bookValue = dmul (totalShares_d holding) (or_zero_d (averageCost_d holding));
         unrealizedGain = dsub marketValue bookValue;
         unrealizedGainPercent =
           (if dgt0 bookValue then ddiv unrealizedGain bookValue else Finite 0)
     in Holding_d.extend holding
          (EnrichedHolding_d.fields currentPrice marketValue bookValue
             unrealizedGain unrealizedGainPercent))"














text \<open>
  Holdings for the concrete cases: three prices of one, two and three tenths; a share
  count of \<open>1e308\<close>; an average cost of \<open>5e-324\<close>, the smallest positive double; and the
  whole-number holdings of the concrete scenario.
\<close>

definition holding_d :: "string \<Rightarrow> double \<Rightarrow> double option \<Rightarrow> double option \<Rightarrow> Holding_d" where
  "holding_d ticker shares cost price =
     \<lparr>id_holding_d = ticker, portfolioId_d = ''p1'', securityId_d = ticker,
      totalShares_d = shares, averageCost_d = cost,
      security_d = \<lparr>symbol_d = ticker, name_d = ticker, currentPrice_d = price\<rparr>\<rparr>"


definition overflowing :: Holding_d where
  "overflowing = holding_d ''X'' (round64 (10 ^ 308)) (Some (Finite 10)) (Some (Finite 10))"

definition tinyCost :: Holding_d where
  "tinyCost = holding_d ''Y'' (Finite 1) (Some (round64 (5 / 10 ^ 324))) (Some (Finite 1))"



definition msft_d :: Holding_d where
  "msft_d = holding_d ''MSFT'' (Finite 10) None (Some (Finite 300))"

definition double_1e308 :: real where
  "double_1e308 = 5010420900022432 * 2 ^ 971"

definition double_min :: real where
  "double_min = 1 / 2 ^ 1074"

section \<open>Properties of the holdings pipeline\<close>

lemmas eval_defs = deriveAndSort_def sortedHoldings_def enrichedHoldings_def comparator_def
  enrich_def Let_def Holding.extend_def EnrichedHolding.fields_def localeCompare_def
  codeUnitOrder_def aapl_def tsla_def msft_def

subsection \<open>Enrichment\<close>

lemma or_zero_eq: "or_zero x = (case x of None \<Rightarrow> 0 | Some v \<Rightarrow> v)"
  by (cases x) auto

lemma enrich_sel:
  "EnrichedHolding.currentPrice (enrich h) = or_zero (Security.currentPrice (security h))"
  "marketValue (enrich h) = totalShares h * or_zero (Security.currentPrice (security h))"
  "bookValue (enrich h) = totalShares h * or_zero (averageCost h)"
  "unrealizedGain (enrich h) = marketValue (enrich h) - bookValue (enrich h)"
  "unrealizedGainPercent (enrich h) =
     (if bookValue (enrich h) > 0 then unrealizedGain (enrich h) / bookValue (enrich h) else 0)"
  "Holding.truncate (enrich h) = h"
  "totalShares (enrich h) = totalShares h"
  "averageCost (enrich h) = averageCost h"
  "security (enrich h) = security h"
  by (simp_all add: enrich_def Let_def Holding.extend_def EnrichedHolding.fields_def
      Holding.truncate_def)

text \<open>
  In exact arithmetic every enriched holding keeps the fields of its holding and
  satisfies the five formulas of the data model.
\<close>

lemma enrich_exact_formulas:
  "EnrichedHolding.currentPrice (enrich h) =
       (case Security.currentPrice (security h) of None \<Rightarrow> 0 | Some p \<Rightarrow> p)
   \<and> marketValue (enrich h) = totalShares h * EnrichedHolding.currentPrice (enrich h)
   \<and> bookValue (enrich h) = totalShares h * (case averageCost h of None \<Rightarrow> 0 | Some c \<Rightarrow> c)
   \<and> unrealizedGain (enrich h) = marketValue (enrich h) - bookValue (enrich h)
   \<and> unrealizedGainPercent (enrich h) =
       (if bookValue (enrich h) > 0 then unrealizedGain (enrich h) / bookValue (enrich h) else 0)
   \<and> Holding.truncate (enrich h) = h"
  by (simp add: enrich_sel or_zero_eq)

subsection \<open>The summary is a function of the multiset of holdings\<close>

lemma foldl_plus: "foldl (\<lambda>s h. s + g h) (a::real) xs = a + sum_list (map g xs)"
  by (induction xs arbitrary: a) simp_all

lemma summary_sums:
  "summary hs =
    (let tv = sum_list (map (\<lambda>h. totalShares h * or_zero (Security.currentPrice (security h))) hs);
         tc = sum_list (map (\<lambda>h. totalShares h * or_zero (averageCost h)) hs)
     in \<lparr>totalValue = tv, totalCost = tc, totalGain = tv - tc,
          totalGainPercent = (if tc > 0 then (tv - tc) / tc else 0)\<rparr>)"
  by (cases hs) (simp_all add: summary_def Let_def foldl_plus)

lemma summary_eq_summarize: "summary hs = summarize (enrichedHoldings hs)"
  by (simp add: summary_sums summarize_def enrichedHoldings_def comp_def enrich_sel)

lemma summary_enriched: "summary (enrichedHoldings hs) = summary hs"
  by (simp add: summary_sums enrichedHoldings_def comp_def enrich_sel)

lemma sum_list_map_mset:
  fixes g :: "'a \<Rightarrow> real"
  assumes "mset xs = mset ys"
  shows "sum_list (map g xs) = sum_list (map g ys)"
proof -
  have "sum_mset (mset (map g xs)) = sum_mset (mset (map g ys))"
    using assms by simp
  then show ?thesis by (simp only: sum_mset_sum_list)
qed

lemma summary_mset:
  assumes "mset xs = mset ys"
  shows "summary xs = summary ys"
  unfolding summary_sums
  using sum_list_map_mset[OF assms,
          of "\<lambda>h. totalShares h * or_zero (Security.currentPrice (security h))"]
        sum_list_map_mset[OF assms, of "\<lambda>h. totalShares h * or_zero (averageCost h)"]
  by simp

lemma summarize_mset:
  assumes "mset xs = mset ys"
  shows "summarize xs = summarize ys"
  unfolding summarize_def
  using sum_list_map_mset[OF assms, of marketValue] sum_list_map_mset[OF assms, of bookValue]
  by simp

subsection \<open>The sort: permutation, sortedness, uniqueness\<close>

lemma mset_insert_by: "mset (insert_by c x xs) = add_mset x (mset xs)"
  by (induction xs) simp_all

lemma mset_sort_by: "mset (sort_by c xs) = mset xs"
  by (induction xs) (simp_all add: mset_insert_by)






subsection \<open>The comparator\<close>







lemma summary_deriveAndSort: "summary (deriveAndSort col H f d) = summary H"
proof -
  have "mset (deriveAndSort col H f d) = mset (enrichedHoldings H)"
    by (simp add: deriveAndSort_def sortedHoldings_def mset_sort_by)
  then have "summary (deriveAndSort col H f d) = summary (enrichedHoldings H)"
    by (rule summary_mset)
  then show ?thesis by (simp add: summary_enriched)
qed

lemma summarize_deriveAndSort: "summarize (deriveAndSort col H f d) = summary H"
proof -
  have "mset (deriveAndSort col H f d) = mset (enrichedHoldings H)"
    by (simp add: deriveAndSort_def sortedHoldings_def mset_sort_by)
  then have "summarize (deriveAndSort col H f d) = summarize (enrichedHoldings H)"
    by (rule summarize_mset)
  then show ?thesis by (simp add: summary_eq_summarize)
qed

subsection \<open>Ascending against descending\<close>




subsection \<open>Summary and sort\<close>

text \<open>
  In exact arithmetic the summary of the derived and sorted list is the summary of the
  raw holdings, whatever the order and the sort.
\<close>

lemma summary_exact_order_independent:
  assumes "mset H = mset H'"
  shows "summary (deriveAndSort col H f d) = summary (deriveAndSort col H' f' d')
       \<and> summarize (deriveAndSort col H f d) = summarize (deriveAndSort col H' f' d')"
  using summary_mset[OF assms] by (simp add: summary_deriveAndSort summarize_deriveAndSort)

text \<open>
  C8. For the holdings AAPL (10 shares, average cost 100, price 150) and TSLA (5 shares,
  average cost 200, price 180), sorting by gain descending puts AAPL (gain 500) before
  TSLA (gain -100), and the summary is total value 2400, total cost 2000, total gain
  400, total gain percent 0.2.
\<close>

theorem concrete_scenario:
  "map (\<lambda>e. symbol (security e)) (deriveAndSort col [aapl, tsla] Gain Desc) = [''AAPL'', ''TSLA'']
   \<and> map unrealizedGain (deriveAndSort col [aapl, tsla] Gain Desc) = [500, - 100]
   \<and> summary [aapl, tsla]
       = \<lparr>totalValue = 2400, totalCost = 2000, totalGain = 400, totalGainPercent = 0.2\<rparr>
   \<and> summarize (deriveAndSort col [aapl, tsla] Gain Desc)
       = \<lparr>totalValue = 2400, totalCost = 2000, totalGain = 400, totalGainPercent = 0.2\<rparr>"
  by (simp add: summary_def summarize_def eval_defs)


section \<open>Properties of the session\<close>

lemmas session_defs = initializeAuth_def initializeAuth_try_def initialState_def getAuthToken_def
  clearAuthToken_def setAuthToken_def getItem_def setItem_def removeItem_def isAuthenticated_def
  toast_def Let_def

text \<open>
  C3. The claim: from process start until session restoration completes the loading
  flag is true, and a protected view shows neither its children nor a redirect to login
  before restoration has finished. What the source does: the provider starts with the
  loading flag false and no user, for any stored content, so the first render of a
  protected route, which precedes the effect that runs \<open>initializeAuth\<close>, is the
  redirect to login; this also happens for a storage whose session \<open>initializeAuth\<close>
  then restores.
\<close>

theorem first_render_redirects_to_login:
  "isLoading (initialState st) = False
   \<and> ProtectedRoute (initialState st) = Navigate LOGIN
   \<and> ProtectedRoute (initialState validStorage) = Navigate LOGIN
   \<and> user (snd (initializeAuth sampleParse (initialState validStorage))) = Some sampleUser
   \<and> ProtectedRoute (snd (initializeAuth sampleParse (initialState validStorage))) = Children"
  by (simp add: ProtectedRoute_def session_defs validStorage_def sampleParse_def)

text \<open>
  C4 as stated fails when the stored identity is the empty string: it does not parse,
  but the guard \<open>token && savedUser\<close> treats it as absent, so nothing is parsed, nothing
  is thrown and nothing is cleared.
\<close>

theorem restore_empty_identity_counterexample:
  "isl (sampleParse [])
   \<and> getAuthToken (snd (initializeAuth sampleParse (initialState emptyIdentityStorage)))
       = Some ''tok123''
   \<and> getItem USER (localStorage (snd (initializeAuth sampleParse (initialState emptyIdentityStorage))))
       = Some []"
  by (simp add: session_defs emptyIdentityStorage_def sampleParse_def)

text \<open>
  C4 (amended). If at process start durable storage holds a non-empty credential and a
  non-empty identity string that does not parse, then \<open>initializeAuth\<close> lets no error
  escape, removes both stored values, leaves the session unauthenticated with the
  loading flag false, and logs the parse error.
\<close>

theorem restore_corrupted_identity:
  assumes "st AUTH_TOKEN = Some tok" and "tok \<noteq> []"
    and "st USER = Some text" and "text \<noteq> []"
    and "parse text = Inl err"
  shows "fst (initializeAuth parse (initialState st)) = None
       \<and> getAuthToken (snd (initializeAuth parse (initialState st))) = None
       \<and> getItem USER (localStorage (snd (initializeAuth parse (initialState st)))) = None
       \<and> \<not> isAuthenticated (snd (initializeAuth parse (initialState st)))
       \<and> \<not> isLoading (snd (initializeAuth parse (initialState st)))
       \<and> console (snd (initializeAuth parse (initialState st))) = [err]"
  using assms by (simp add: session_defs)

theorem restore_corrupted_identity_witness:
  "fst (initializeAuth sampleParse (initialState corruptedStorage)) = None
   \<and> localStorage (snd (initializeAuth sampleParse (initialState corruptedStorage))) AUTH_TOKEN = None
   \<and> localStorage (snd (initializeAuth sampleParse (initialState corruptedStorage))) USER = None
   \<and> \<not> isAuthenticated (snd (initializeAuth sampleParse (initialState corruptedStorage)))"
  using restore_corrupted_identity[of corruptedStorage "''tok123''" "''{not json''" sampleParse
      "\<lparr>message = Some ''Unexpected token'', response_data_message = None\<rparr>"]
  by (simp add: corruptedStorage_def sampleParse_def getAuthToken_def getItem_def)

lemma restore_untouched:
  assumes "\<not> (truthy (st AUTH_TOKEN) \<and> truthy (st USER))"
  shows "initializeAuth parse (initialState st) = (None, initialState st)"
  using assms by (auto simp: session_defs split: option.splits)

text \<open>
  C10. If at process start durable storage holds exactly one of the two values, a
  credential without an identity or an identity without a credential, then
  \<open>initializeAuth\<close> lets no error escape, the session is unauthenticated, and durable
  storage is exactly what it was: the single stored value is not cleared.
\<close>

theorem restore_single_value_kept:
  assumes "(st AUTH_TOKEN = None) \<noteq> (st USER = None)"
  shows "fst (initializeAuth parse (initialState st)) = None
       \<and> \<not> isAuthenticated (snd (initializeAuth parse (initialState st)))
       \<and> localStorage (snd (initializeAuth parse (initialState st))) = st"
proof -
  from assms have "\<not> (truthy (st AUTH_TOKEN) \<and> truthy (st USER))"
    by (cases "st AUTH_TOKEN"; cases "st USER") simp_all
  then have "initializeAuth parse (initialState st) = (None, initialState st)"
    by (rule restore_untouched)
  then show ?thesis by (simp add: initialState_def isAuthenticated_def)
qed

theorem restore_single_value_kept_witness:
  "localStorage (snd (initializeAuth sampleParse (initialState [AUTH_TOKEN \<mapsto> ''tok123''])))
     = [AUTH_TOKEN \<mapsto> ''tok123'']
   \<and> \<not> isAuthenticated (snd (initializeAuth sampleParse (initialState [AUTH_TOKEN \<mapsto> ''tok123''])))
   \<and> localStorage (snd (initializeAuth sampleParse (initialState [USER \<mapsto> ''{not json''])))
     = [USER \<mapsto> ''{not json'']
   \<and> \<not> isAuthenticated (snd (initializeAuth sampleParse (initialState [USER \<mapsto> ''{not json''])))"
  using restore_single_value_kept[of "[AUTH_TOKEN \<mapsto> ''tok123'']" sampleParse]
        restore_single_value_kept[of "[USER \<mapsto> ''{not json'']" sampleParse]
  by simp

text \<open>
  C6. \<open>login\<close>: when the gateway resolves, the credential and the serialized identity
  are both in storage, the session is authenticated, no error leaves the function and
  the dashboard is navigated to. When the gateway rejects, the error leaves the
  function, the user and so the authentication state are what they were (an
  unauthenticated session stays unauthenticated), durable storage is unchanged, nothing
  is navigated to, and exactly one destructive toast has been added.
\<close>

theorem login_outcomes:
  "(apiLogin credentials = Inr response \<longrightarrow>
      fst (login stringify apiLogin credentials s) = None
    \<and> getAuthToken (snd (login stringify apiLogin credentials s)) = Some (token response)
    \<and> getItem USER (localStorage (snd (login stringify apiLogin credentials s)))
        = Some (stringify (AuthResponse.user response))
    \<and> user (snd (login stringify apiLogin credentials s)) = Some (AuthResponse.user response)
    \<and> isAuthenticated (snd (login stringify apiLogin credentials s))
    \<and> navigations (snd (login stringify apiLogin credentials s)) = navigations s @ [DASHBOARD])
   \<and> (apiLogin credentials = Inl error \<longrightarrow>
      fst (login stringify apiLogin credentials s) = Some error
    \<and> user (snd (login stringify apiLogin credentials s)) = user s
    \<and> isAuthenticated (snd (login stringify apiLogin credentials s)) = isAuthenticated s
    \<and> localStorage (snd (login stringify apiLogin credentials s)) = localStorage s
    \<and> navigations (snd (login stringify apiLogin credentials s)) = navigations s
    \<and> toasts (snd (login stringify apiLogin credentials s))
        = toasts s @ [\<lparr>variant = Destructive, title = ''Login Failed'',
                       description = or_string (message error) ''Invalid email or password''\<rparr>])"
  by (simp add: login_def session_defs)

theorem login_outcomes_witness:
  "fst (login sampleStringify (\<lambda>c. Inr sampleResponse) sampleCredentials (initialState Map.empty))
     = None
   \<and> getAuthToken (snd (login sampleStringify (\<lambda>c. Inr sampleResponse) sampleCredentials
        (initialState Map.empty))) = Some ''tok123''
   \<and> isAuthenticated (snd (login sampleStringify (\<lambda>c. Inr sampleResponse) sampleCredentials
        (initialState Map.empty)))
   \<and> fst (login sampleStringify (\<lambda>c. Inl rejected) sampleCredentials (initialState Map.empty))
       = Some rejected
   \<and> localStorage (snd (login sampleStringify (\<lambda>c. Inl rejected) sampleCredentials
        (initialState Map.empty))) = Map.empty
   \<and> \<not> isAuthenticated (snd (login sampleStringify (\<lambda>c. Inl rejected) sampleCredentials
        (initialState Map.empty)))"
  using login_outcomes[of "\<lambda>c. Inr sampleResponse" sampleCredentials sampleResponse
          sampleStringify "initialState Map.empty" rejected]
        login_outcomes[of "\<lambda>c. Inl rejected" sampleCredentials sampleResponse
          sampleStringify "initialState Map.empty" rejected]
  by (simp add: initialState_def isAuthenticated_def sampleResponse_def)

section \<open>Properties of the mutation hooks\<close>

lemmas hook_defs = useCreateTransaction_def useUpdateTransaction_def useDeleteTransaction_def
  useCreateHolding_def useUpdateHolding_def useDeleteHolding_def useMutation_def no_handler_def
  toast_def

lemmas key_defs = holdingKeys_all_def holdingKeys_lists_def holdingKeys_list_def
  holdingKeys_details_def holdingKeys_detail_def portfolioKeys_all_def

lemma resolved_mutation_invalidates:
  "createTransaction u p dto = Inr r \<Longrightarrow>
     queryCache (useCreateTransaction createTransaction (u, p, dto) s)
       = queryCache (invalidateQueries portfolioKeys_all (invalidateQueries holdingKeys_all s))"
  "createHolding p u hdto = Inr r \<Longrightarrow>
     queryCache (useCreateHolding createHolding (p, u, hdto) s)
       = queryCache (invalidateQueries (holdingKeys_list p u) s)"
  by (simp_all add: hook_defs)

lemma resolved_createTransaction_sample:
  "queryCache (useCreateTransaction (\<lambda>u p d. (Inr () :: JsError + unit)) (''u1'', ''p1'', ())
       sampleCache) (holdingKeys_list ''p1'' ''u1'')
     = Some \<lparr>data = [aapl, tsla], isInvalidated = True\<rparr>"
  by (simp add: hook_defs invalidateQueries_def sampleCache_def key_defs)

text \<open>
  C5. For each of the six mutation hooks (create, update, delete of a transaction or a
  holding): when the mutation's network call rejects, the query cache after the
  mutation is exactly the cache before it, so no key is invalidated and no cached data
  changes; invalidation is an effect of the resolved call only.
\<close>

theorem rejected_mutation_keeps_cache:
  "(createTransaction u p dto = Inl e \<longrightarrow>
      queryCache (useCreateTransaction createTransaction (u, p, dto) s) = queryCache s)
   \<and> (updateTransaction u t dto' = Inl e \<longrightarrow>
      queryCache (useUpdateTransaction updateTransaction (u, t, dto') s) = queryCache s)
   \<and> (deleteTransaction u t = Inl e \<longrightarrow>
      queryCache (useDeleteTransaction deleteTransaction (u, t) s) = queryCache s)
   \<and> (createHolding p u hdto = Inl e \<longrightarrow>
      queryCache (useCreateHolding createHolding (p, u, hdto) s) = queryCache s)
   \<and> (updateHolding u p h hdto' = Inl e \<longrightarrow>
      queryCache (useUpdateHolding updateHolding (u, p, h, hdto') s) = queryCache s)
   \<and> (deleteHolding h p u = Inl e \<longrightarrow>
      queryCache (useDeleteHolding deleteHolding (h, p, u) s) = queryCache s)"
  by (simp add: hook_defs)

theorem rejected_mutation_keeps_cache_witness:
  "queryCache (useCreateTransaction (\<lambda>u p d. (Inl rejected :: JsError + unit))
       (''u1'', ''p1'', ()) sampleCache) (holdingKeys_list ''p1'' ''u1'')
     = Some \<lparr>data = [aapl, tsla], isInvalidated = False\<rparr>
   \<and> queryCache (useDeleteHolding (\<lambda>h p u. (Inl rejected :: JsError + unit))
       (''h1'', ''p1'', ''u1'') sampleCache) (holdingKeys_list ''p1'' ''u1'')
     = Some \<lparr>data = [aapl, tsla], isInvalidated = False\<rparr>"
  using rejected_mutation_keeps_cache[
      where createTransaction = "\<lambda>u p d. (Inl rejected :: JsError + unit)"
      and updateTransaction = "\<lambda>u t d. (Inl rejected :: JsError + unit)"
      and deleteTransaction = "\<lambda>u t. (Inl rejected :: JsError + unit)"
      and createHolding = "\<lambda>p u d. (Inl rejected :: JsError + unit)"
      and updateHolding = "\<lambda>u p h d. (Inl rejected :: JsError + unit)"
      and deleteHolding = "\<lambda>h p u. (Inl rejected :: JsError + unit)"
      and u = "''u1''" and p = "''p1''" and t = "''t1''" and h = "''h1''"
      and dto = "()" and dto' = "()" and hdto = "()" and hdto' = "()"
      and e = rejected and s = sampleCache]
  by (simp add: sampleCache_def)

section \<open>Properties in double precision\<close>

subsection \<open>Rounding\<close>

lemma bit_length_nonneg: "0 \<le> bit_length n"
proof (induction n rule: bit_length.induct)
  case (1 n)
  show ?case
  proof (cases "n \<le> 0")
    case True
    then show ?thesis by (simp add: bit_length.simps[of n])
  next
    case False
    with 1 show ?thesis by (simp add: bit_length.simps[of n])
  qed
qed

lemma bit_length_bounds:
  "0 < n \<Longrightarrow> 2 ^ nat (bit_length n - 1) \<le> n \<and> n < 2 ^ nat (bit_length n)"
proof (induction n rule: bit_length.induct)
  case (1 n)
  have bl: "bit_length n = 1 + bit_length (n div 2)"
    using "1.prems" by (simp add: bit_length.simps[of n])
  show ?case
  proof (cases "n = 1")
    case True
    then show ?thesis by (simp add: bit_length.simps[of 1] bit_length.simps[of 0])
  next
    case False
    with "1.prems" have pos: "0 < n div 2" by simp
    from "1.IH" pos "1.prems"
    have ih: "2 ^ nat (bit_length (n div 2) - 1) \<le> n div 2 \<and> n div 2 < 2 ^ nat (bit_length (n div 2))"
      by simp
    have ge1: "1 \<le> bit_length (n div 2)"
      using pos bit_length_nonneg[of "n div 2 div 2"] by (simp add: bit_length.simps[of "n div 2"])
    have e1: "nat (bit_length n - 1) = Suc (nat (bit_length (n div 2) - 1))"
      using bl ge1 by simp
    have e2: "nat (bit_length n) = Suc (nat (bit_length (n div 2)))"
      using bl ge1 by simp
    show ?thesis using ih unfolding e1 e2 by simp linarith
  qed
qed

lemma round_even_of_int: "round_even (of_int m) = m"
  by (simp add: round_even_def)

lemma round64_of_int:
  assumes "\<bar>n\<bar> < 2 ^ 53"
  shows "round64 (of_int n) = Finite (of_int n)"
proof (cases "n = 0")
  case True
  then show ?thesis by (simp add: round64_def)
next
  case False
  define m where "m = \<bar>n\<bar>"
  have mpos: "0 < m" using False by (simp add: m_def)
  define e where "e = bit_length m - 1"
  from bit_length_bounds[OF mpos]
  have lo: "2 ^ nat e \<le> m" and hi: "m < 2 ^ nat (bit_length m)" by (simp_all add: e_def)
  have bl1: "1 \<le> bit_length m"
    using mpos bit_length_nonneg[of "m div 2"] by (simp add: bit_length.simps[of m])
  then have e0: "0 \<le> e" by (simp add: e_def)
  have lt53: "(2::int) ^ nat e < 2 ^ 53" using lo assms by (simp add: m_def)
  have "nat e < 53"
  proof (rule ccontr)
    assume "\<not> nat e < 53"
    then have "53 \<le> nat e" by simp
    then have "(2::int) ^ 53 \<le> 2 ^ nat e" by (rule power_increasing) simp
    with lt53 show False by simp
  qed
  then have e52: "e \<le> 52" using e0 by simp
  have ab: "\<bar>of_int n :: real\<bar> = of_int m" by (simp add: m_def)
  have ge1: "(1::real) \<le> \<bar>of_int n\<bar>" using mpos unfolding ab by simp
  have ex: "exponent (of_int n) = e"
    using ge1 by (simp add: exponent_def ab e_def)
  define k where "k = nat (52 - e)"
  have q: "pow2 (max e (- 1022) - 52) = 1 / 2 ^ k"
  proof (cases "e = 52")
    case True
    then show ?thesis by (simp add: pow2_def k_def)
  next
    case False
    with e52 e0 show ?thesis by (simp add: pow2_def k_def max_def)
  qed
  have quot: "(of_int n :: real) / (1 / 2 ^ k) = of_int (n * 2 ^ k)" by simp
  have r: "of_int (round_even (of_int n / (1 / 2 ^ k))) * (1 / 2 ^ k) = (of_int n :: real)"
    unfolding quot round_even_of_int by simp
  have small: "\<bar>of_int n :: real\<bar> < 2 ^ 53"
  proof -
    have "(of_int \<bar>n\<bar> :: real) < of_int (2 ^ 53)" using assms by (simp only: of_int_less_iff)
    then show ?thesis by simp
  qed
  have big: "(2::real) ^ 53 < pow2 1024" by (simp add: pow2_def)
  have nz: "(of_int n :: real) \<noteq> 0" using False by simp
  have c1: "\<not> pow2 1024 \<le> (of_int n :: real)" using small big by linarith
  have c2: "\<not> (of_int n :: real) \<le> - pow2 1024" using small big by linarith
  have "round64 (of_int n) =
      (if pow2 1024 \<le> of_int (round_even (of_int n / (1 / 2 ^ k))) * (1 / 2 ^ k) then PosInf
       else if of_int (round_even (of_int n / (1 / 2 ^ k))) * (1 / 2 ^ k) \<le> - pow2 1024 then NegInf
       else Finite (of_int (round_even (of_int n / (1 / 2 ^ k))) * (1 / 2 ^ k)))"
    unfolding round64_def ex q Let_def by (simp only: nz if_False)
  also have "\<dots> = Finite (of_int n)"
    unfolding r by (simp only: c1 c2 if_False)
  finally show ?thesis .
qed

lemma bit_length_ge1: "0 < m \<Longrightarrow> 1 \<le> bit_length m"
  using bit_length_nonneg[of "m div 2"] by (simp add: bit_length.simps[of m])

lemma pow2_powi: "pow2 e = power_int 2 e"
  by (simp add: pow2_def power_int_def power_one_over)

lemma pow2_pos: "0 < pow2 e"
  by (simp add: pow2_powi)

lemma pow2_less: "a < b \<Longrightarrow> pow2 a < pow2 b"
  unfolding pow2_powi by (rule power_int_strict_increasing) simp_all

lemma pow2_less_imp: "pow2 a < pow2 b \<Longrightarrow> a < b"
proof (rule ccontr)
  assume lt: "pow2 a < pow2 b" and "\<not> a < b"
  then have "b \<le> a" by simp
  then have "pow2 b \<le> pow2 a"
    unfolding pow2_powi by (rule power_int_increasing) simp
  with lt show False by simp
qed

lemma exponent_bounds:
  assumes "x \<noteq> 0"
  shows "pow2 (exponent x) \<le> \<bar>x\<bar> \<and> \<bar>x\<bar> < pow2 (exponent x + 1)"
proof (cases "1 \<le> \<bar>x\<bar>")
  case True
  define m where "m = \<lfloor>\<bar>x\<bar>\<rfloor>"
  have m1: "0 < m" using True by (simp add: m_def)
  define b where "b = bit_length m"
  have b1: "1 \<le> b" using m1 by (simp add: b_def bit_length_ge1)
  from bit_length_bounds[OF m1]
  have lo: "2 ^ nat (b - 1) \<le> m" and hi: "m < 2 ^ nat b" by (simp_all add: b_def)
  have ex: "exponent x = b - 1" using True by (simp add: exponent_def m_def b_def)
  have "(of_int (2 ^ nat (b - 1)) :: real) \<le> of_int m" using lo by (simp only: of_int_le_iff)
  also have "\<dots> \<le> \<bar>x\<bar>" by (simp add: m_def)
  finally have l: "pow2 (b - 1) \<le> \<bar>x\<bar>" using b1 by (simp add: pow2_def)
  have "m + 1 \<le> 2 ^ nat b" using hi by simp
  then have "(of_int (m + 1) :: real) \<le> of_int (2 ^ nat b)" by (simp only: of_int_le_iff)
  moreover have "\<bar>x\<bar> < of_int (m + 1)" by (simp add: m_def)
  ultimately have "\<bar>x\<bar> < of_int (2 ^ nat b)" by linarith
  then have h: "\<bar>x\<bar> < pow2 b" using b1 by (simp add: pow2_def)
  show ?thesis using l h by (simp add: ex)
next
  case False
  define y where "y = 1 / \<bar>x\<bar>"
  have xpos: "0 < \<bar>x\<bar>" using assms by simp
  have y1: "1 < y" using False xpos by (simp add: y_def)
  define m where "m = \<lceil>y\<rceil> - 1"
  have m1: "0 < m" using y1 by (simp add: m_def less_ceiling_iff)
  have my: "of_int m < y" "y \<le> of_int m + 1" by (simp_all add: m_def) linarith
  define b where "b = bit_length m"
  have b1: "1 \<le> b" using m1 by (simp add: b_def bit_length_ge1)
  from bit_length_bounds[OF m1]
  have lo: "2 ^ nat (b - 1) \<le> m" and hi: "m < 2 ^ nat b" by (simp_all add: b_def)
  have ex: "exponent x = - b" using False by (simp add: exponent_def m_def b_def y_def)
  have "m + 1 \<le> 2 ^ nat b" using hi by simp
  then have "(of_int (m + 1) :: real) \<le> of_int (2 ^ nat b)" by (simp only: of_int_le_iff)
  then have "y \<le> 2 ^ nat b" using my(2) by simp
  then have "1 / \<bar>x\<bar> \<le> 2 ^ nat b" by (simp add: y_def)
  then have "1 \<le> 2 ^ nat b * \<bar>x\<bar>" using xpos by (simp add: field_simps)
  then have l: "1 / 2 ^ nat b \<le> \<bar>x\<bar>" by (simp add: field_simps)
  have "(of_int (2 ^ nat (b - 1)) :: real) \<le> of_int m" using lo by (simp only: of_int_le_iff)
  then have "(2::real) ^ nat (b - 1) \<le> of_int m" by (simp only: of_int_power of_int_numeral)
  then have "2 ^ nat (b - 1) < y" using my(1) by linarith
  then have "2 ^ nat (b - 1) < 1 / \<bar>x\<bar>" by (simp add: y_def)
  then have "2 ^ nat (b - 1) * \<bar>x\<bar> < 1" using xpos by (simp add: field_simps)
  then have h: "\<bar>x\<bar> < 1 / 2 ^ nat (b - 1)" by (simp add: field_simps)
  have p1: "pow2 (- b) = 1 / 2 ^ nat b" using b1 by (simp add: pow2_def)
  have p2: "pow2 (1 - b) = 1 / 2 ^ nat (b - 1)"
  proof (cases "b = 1")
    case True
    then show ?thesis by (simp add: pow2_def)
  next
    case False
    with b1 have "nat (- (1 - b)) = nat (b - 1)" "\<not> 0 \<le> 1 - b" by simp_all
    then show ?thesis by (simp add: pow2_def)
  qed
  show ?thesis using l h by (simp add: ex p1 p2)
qed

lemma exponent_eqI:
  assumes "pow2 e \<le> \<bar>x\<bar>" and "\<bar>x\<bar> < pow2 (e + 1)"
  shows "exponent x = e"
proof -
  have "x \<noteq> 0" using assms(1) pow2_pos[of e] by auto
  from exponent_bounds[OF this]
  have b: "pow2 (exponent x) \<le> \<bar>x\<bar>" "\<bar>x\<bar> < pow2 (exponent x + 1)" by simp_all
  have "pow2 e < pow2 (exponent x + 1)" using assms(1) b(2) by linarith
  then have "e < exponent x + 1" by (rule pow2_less_imp)
  moreover have "pow2 (exponent x) < pow2 (e + 1)" using assms(2) b(1) by linarith
  then have "exponent x < e + 1" by (rule pow2_less_imp)
  ultimately show ?thesis by simp
qed

lemma round64_cert:
  assumes "pow2 e \<le> \<bar>x\<bar>" and "\<bar>x\<bar> < pow2 (e + 1)"
  shows "round64 x =
    (let q = pow2 (max e (- 1022) - 52); r = of_int (round_even (x / q)) * q
     in if pow2 1024 \<le> r then PosInf else if r \<le> - pow2 1024 then NegInf else Finite r)"
proof -
  have nz: "x \<noteq> 0" using assms(1) pow2_pos[of e] by auto
  have ex: "exponent x = e" using assms by (rule exponent_eqI)
  show ?thesis unfolding round64_def ex by (simp only: nz if_False)
qed

lemmas cert_eval = pow2_def round_even_def Let_def

lemma r_1e308: "round64 (10 ^ 308) = Finite double_1e308"
  by (subst round64_cert[where e = 1023]) (simp_all add: cert_eval double_1e308_def)

lemma r_1e309: "round64 (double_1e308 * 10) = PosInf"
  by (subst round64_cert[where e = 1026]) (simp_all add: cert_eval double_1e308_def)

lemma r_min: "round64 (5 / 10 ^ 324) = Finite double_min"
  by (subst round64_cert[where e = "- 1074"]) (simp_all add: cert_eval double_min_def)

lemma r_min_id: "round64 (1 * double_min) = Finite double_min"
  by (subst round64_cert[where e = "- 1074"]) (simp_all add: cert_eval double_min_def)

lemma r_one_minus: "round64 (1 + - double_min) = Finite 1"
  by (subst round64_cert[where e = "- 1"]) (simp_all add: cert_eval double_min_def)

lemma r_quot: "round64 (1 / double_min) = PosInf"
  by (subst round64_cert[where e = 1074]) (simp_all add: cert_eval double_min_def)

subsection \<open>Enrichment on doubles\<close>

lemma enrich_d_sel:
  "totalShares_d (enrich_d h) = totalShares_d h"
  "averageCost_d (enrich_d h) = averageCost_d h"
  "security_d (enrich_d h) = security_d h"
  "Holding_d.truncate (enrich_d h) = h"
  "EnrichedHolding_d.currentPrice_d (enrich_d h) = or_zero_d (Security_d.currentPrice_d (security_d h))"
  "marketValue_d (enrich_d h) = dmul (totalShares_d h) (EnrichedHolding_d.currentPrice_d (enrich_d h))"
  "bookValue_d (enrich_d h) = dmul (totalShares_d h) (or_zero_d (averageCost_d h))"
  "unrealizedGain_d (enrich_d h) = dsub (marketValue_d (enrich_d h)) (bookValue_d (enrich_d h))"
  "unrealizedGainPercent_d (enrich_d h) =
     (if dgt0 (bookValue_d (enrich_d h))
      then ddiv (unrealizedGain_d (enrich_d h)) (bookValue_d (enrich_d h)) else Finite 0)"
  by (simp_all add: enrich_d_def Let_def Holding_d.extend_def EnrichedHolding_d.fields_def
      Holding_d.truncate_def)

lemma round64_not_NaN: "round64 x \<noteq> NaN"
  by (simp add: round64_def Let_def)

lemma dsub_finite_not_NaN: "dsub (Finite a) (Finite b) \<noteq> NaN"
  by (simp add: dsub_def round64_not_NaN)

lemma ddiv_not_NaN:
  assumes "g \<noteq> NaN" and "0 < b"
  shows "ddiv g (Finite b) \<noteq> NaN"
  using assms by (cases g) (simp_all add: round64_not_NaN)

lemma overflowing_fields:
  "totalShares_d overflowing = Finite double_1e308"
  "or_zero_d (Security_d.currentPrice_d (security_d overflowing)) = Finite 10"
  "or_zero_d (averageCost_d overflowing) = Finite 10"
  unfolding overflowing_def holding_d_def r_1e308 by simp_all

lemma tinyCost_fields:
  "totalShares_d tinyCost = Finite 1"
  "or_zero_d (Security_d.currentPrice_d (security_d tinyCost)) = Finite 1"
  "or_zero_d (averageCost_d tinyCost) = Finite double_min"
  unfolding tinyCost_def holding_d_def r_min by simp_all

text \<open>
  C2 as stated fails on overflow. With \<open>1e308\<close> shares at price 10 and cost 10 both
  products overflow to infinity, their difference is NaN and so is the percentage; with
  one share at price 1 and average cost \<open>5e-324\<close> the book value is positive and the
  quotient overflows to infinity.
\<close>

theorem enrich_overflow_counterexample:
  "marketValue_d (enrich_d overflowing) = PosInf
   \<and> bookValue_d (enrich_d overflowing) = PosInf
   \<and> unrealizedGain_d (enrich_d overflowing) = NaN
   \<and> unrealizedGainPercent_d (enrich_d overflowing) = NaN
   \<and> unrealizedGainPercent_d (enrich_d tinyCost) = PosInf"
proof -
  have mv: "marketValue_d (enrich_d overflowing) = PosInf"
    unfolding enrich_d_sel(6) enrich_d_sel(5) overflowing_fields dmul.simps(1) by (rule r_1e309)
  have bv: "bookValue_d (enrich_d overflowing) = PosInf"
    unfolding enrich_d_sel(7) overflowing_fields dmul.simps(1) by (rule r_1e309)
  have g: "unrealizedGain_d (enrich_d overflowing) = NaN"
    unfolding enrich_d_sel(8) mv bv by (simp add: dsub_def)
  have p: "unrealizedGainPercent_d (enrich_d overflowing) = NaN"
    unfolding enrich_d_sel(9) g bv by simp
  have mv': "marketValue_d (enrich_d tinyCost) = Finite 1"
    unfolding enrich_d_sel(6) enrich_d_sel(5) tinyCost_fields dmul.simps(1)
    using round64_of_int[of 1] by simp
  have bv': "bookValue_d (enrich_d tinyCost) = Finite double_min"
    unfolding enrich_d_sel(7) tinyCost_fields dmul.simps(1) by (rule r_min_id)
  have g': "unrealizedGain_d (enrich_d tinyCost) = Finite 1"
    unfolding enrich_d_sel(8) mv' bv' dsub_def dneg.simps dadd.simps(1) by (rule r_one_minus)
  have pos: "0 < double_min" by (simp add: double_min_def)
  have p': "unrealizedGainPercent_d (enrich_d tinyCost) = PosInf"
    unfolding enrich_d_sel(9) g' bv' using pos r_quot by simp
  show ?thesis using mv bv g p p' by simp
qed


text \<open>
  C2 (amended). In double arithmetic every enriched holding keeps the fields of its
  holding and carries: \<open>currentPrice\<close>, the security's price or 0 when absent (or NaN);
  \<open>marketValue\<close>, the product of shares and that price; \<open>bookValue\<close>, the product of
  shares and the average cost or 0 when absent; \<open>unrealizedGain\<close>, the difference of
  the two with no further step; \<open>unrealizedGainPercent\<close>, the quotient of gain and book
  value when the book value is strictly positive and exactly 0 otherwise, so that no
  division by zero occurs. With a finite share count and the average cost absent, book
  value and percentage are exactly 0. When market value and book value are finite,
  neither the gain nor the percentage is NaN. Enrichment is total: an absent price or
  cost is no error.
\<close>

theorem enrich_d_formulas:
  "EnrichedHolding_d.currentPrice_d (enrich_d h) =
       (case Security_d.currentPrice_d (security_d h) of
          None \<Rightarrow> Finite 0 | Some p \<Rightarrow> if p = NaN then Finite 0 else p)
   \<and> marketValue_d (enrich_d h)
       = dmul (totalShares_d h) (EnrichedHolding_d.currentPrice_d (enrich_d h))
   \<and> bookValue_d (enrich_d h)
       = dmul (totalShares_d h)
           (case averageCost_d h of None \<Rightarrow> Finite 0 | Some c \<Rightarrow> if c = NaN then Finite 0 else c)
   \<and> unrealizedGain_d (enrich_d h) = dsub (marketValue_d (enrich_d h)) (bookValue_d (enrich_d h))
   \<and> unrealizedGainPercent_d (enrich_d h) =
       (if dgt0 (bookValue_d (enrich_d h))
        then ddiv (unrealizedGain_d (enrich_d h)) (bookValue_d (enrich_d h)) else Finite 0)
   \<and> (\<not> dgt0 (bookValue_d (enrich_d h)) \<longrightarrow> unrealizedGainPercent_d (enrich_d h) = Finite 0)
   \<and> (is_finite (totalShares_d h) \<and> averageCost_d h = None \<longrightarrow>
        bookValue_d (enrich_d h) = Finite 0 \<and> unrealizedGainPercent_d (enrich_d h) = Finite 0)
   \<and> (is_finite (marketValue_d (enrich_d h)) \<and> is_finite (bookValue_d (enrich_d h)) \<longrightarrow>
        unrealizedGain_d (enrich_d h) \<noteq> NaN \<and> unrealizedGainPercent_d (enrich_d h) \<noteq> NaN)
   \<and> Holding_d.truncate (enrich_d h) = h"
proof -
  have oz: "or_zero_d x = (case x of None \<Rightarrow> Finite 0 | Some p \<Rightarrow> if p = NaN then Finite 0 else p)"
    for x
  proof (cases x)
    case None
    then show ?thesis by simp
  next
    case (Some p)
    then show ?thesis by (cases p) simp_all
  qed
  have absent: "bookValue_d (enrich_d h) = Finite 0 \<and> unrealizedGainPercent_d (enrich_d h) = Finite 0"
    if "is_finite (totalShares_d h)" "averageCost_d h = None"
  proof -
    from that(1) obtain s where s: "totalShares_d h = Finite s" by (cases "totalShares_d h") simp_all
    have "bookValue_d (enrich_d h) = Finite 0"
      by (simp add: enrich_d_sel that(2) s round64_def)
    then show ?thesis by (simp add: enrich_d_sel(9))
  qed
  have nonan: "unrealizedGain_d (enrich_d h) \<noteq> NaN \<and> unrealizedGainPercent_d (enrich_d h) \<noteq> NaN"
    if "is_finite (marketValue_d (enrich_d h))" "is_finite (bookValue_d (enrich_d h))"
  proof -
    from that obtain m b where mb: "marketValue_d (enrich_d h) = Finite m"
        "bookValue_d (enrich_d h) = Finite b"
      by (cases "marketValue_d (enrich_d h)"; cases "bookValue_d (enrich_d h)") simp_all
    have g: "unrealizedGain_d (enrich_d h) \<noteq> NaN"
      unfolding enrich_d_sel(8) mb by (rule dsub_finite_not_NaN)
    have "unrealizedGainPercent_d (enrich_d h) \<noteq> NaN"
    proof (cases "0 < b")
      case True
      then show ?thesis
        unfolding enrich_d_sel(9) mb using ddiv_not_NaN[OF g True] by (simp add: mb)
    next
      case False
      then show ?thesis unfolding enrich_d_sel(9) mb by simp
    qed
    with g show ?thesis by simp
  qed
  have c1: "EnrichedHolding_d.currentPrice_d (enrich_d h) =
       (case Security_d.currentPrice_d (security_d h) of
          None \<Rightarrow> Finite 0 | Some p \<Rightarrow> if p = NaN then Finite 0 else p)"
    unfolding enrich_d_sel(5) by (rule oz)
  have c3: "bookValue_d (enrich_d h)
       = dmul (totalShares_d h)
           (case averageCost_d h of None \<Rightarrow> Finite 0 | Some c \<Rightarrow> if c = NaN then Finite 0 else c)"
    unfolding enrich_d_sel(7) by (simp only: oz)
  have c6: "\<not> dgt0 (bookValue_d (enrich_d h)) \<longrightarrow> unrealizedGainPercent_d (enrich_d h) = Finite 0"
    by (simp add: enrich_d_sel(9))
  show ?thesis
    using c1 enrich_d_sel(6)[of h] c3 enrich_d_sel(8)[of h] enrich_d_sel(9)[of h] c6 absent nonan
      enrich_d_sel(4)[of h]
    by blast
qed

theorem enrich_d_formulas_witness:
  "bookValue_d (enrich_d msft_d) = Finite 0
   \<and> unrealizedGainPercent_d (enrich_d msft_d) = Finite 0
   \<and> unrealizedGain_d (enrich_d msft_d) \<noteq> NaN"
proof -
  have f: "is_finite (totalShares_d msft_d) \<and> averageCost_d msft_d = None"
    by (simp add: msft_d_def holding_d_def)
  have m: "marketValue_d (enrich_d msft_d) = Finite 3000"
    using round64_of_int[of 3000] by (simp add: enrich_d_sel(5,6) msft_d_def holding_d_def)
  from enrich_d_formulas[of msft_d] f
  have b: "bookValue_d (enrich_d msft_d) = Finite 0 \<and> unrealizedGainPercent_d (enrich_d msft_d) = Finite 0"
    by blast
  then have "is_finite (marketValue_d (enrich_d msft_d)) \<and> is_finite (bookValue_d (enrich_d msft_d))"
    using m by simp
  with enrich_d_formulas[of msft_d] have "unrealizedGain_d (enrich_d msft_d) \<noteq> NaN" by blast
  with b show ?thesis by simp
qed


subsection \<open>Summary on doubles\<close>






























end
